theory Spec2Isabelle
  imports Main "HOL-Library.Word"
begin

text \<open>
  The repository is a collection of notes on React with a few demo components: a counter
  with a form (\<open>App\<close> and its form action \<open>action\<close>), a theme context with a custom
  hook (\<open>ThemeContext\<close>, \<open>useThemeContext\<close>, \<open>Form\<close>), and a data provider with its
  consumer (\<open>dataContext\<close>, \<open>DataProvider\<close>, the consumer component). This theory models
  these functions, on the primitives of JavaScript and React they call, and settles what
  the specification says about them.
\<close>

section \<open>JavaScript values used by the demo components\<close>

text \<open>
  A JavaScript string is a sequence of UTF-16 code units and \<open>.length\<close> counts code
  units. String literals of the source are ASCII; \<open>str\<close> turns such a literal into its
  code units.
\<close>

type_synonym jsstring = "16 word list"

definition str :: "string \<Rightarrow> jsstring" where
  "str s = map of_char s"

text \<open>
  Code units \<open>D800\<close> to \<open>DBFF\<close> are lead surrogates, \<open>DC00\<close> to \<open>DFFF\<close> trail
  surrogates; a lead followed by a trail encodes one character outside the Basic
  Multilingual Plane. Where the platform takes a scalar value string (the names and the
  string values of form data), every surrogate that is not part of such a pair is replaced
  by \<open>U+FFFD\<close>.
\<close>

definition is_lead_surrogate :: "16 word \<Rightarrow> bool" where
  "is_lead_surrogate w \<longleftrightarrow> 55296 \<le> w \<and> w \<le> 56319"

definition is_trail_surrogate :: "16 word \<Rightarrow> bool" where
  "is_trail_surrogate w \<longleftrightarrow> 56320 \<le> w \<and> w \<le> 57343"

fun to_scalar_value_string :: "jsstring \<Rightarrow> jsstring" where
  "to_scalar_value_string [] = []"
| "to_scalar_value_string [w] =
     (if is_lead_surrogate w \<or> is_trail_surrogate w then [65533] else [w])"
| "to_scalar_value_string (w # v # ws) =
     (if is_lead_surrogate w \<and> is_trail_surrogate v
      then w # v # to_scalar_value_string ws
      else if is_lead_surrogate w \<or> is_trail_surrogate w
           then 65533 # to_scalar_value_string (v # ws)
           else w # to_scalar_value_string (v # ws))"

text \<open>
  A value is \<open>undefined\<close>, \<open>null\<close>, or something else. The strict comparison
  \<open>x === undefined\<close> is equality with \<open>Undefined\<close>.
\<close>

datatype 'a jsval = Undefined | Null | Defined 'a

text \<open>
  What can be thrown: the host's \<open>TypeError\<close> (reading a property of \<open>null\<close> or
  \<open>undefined\<close>, destructuring them), and \<open>new Error(message)\<close>.
\<close>

datatype js_error = TypeError | Error jsstring

section \<open>Host primitives: FormData, timers, state and context\<close>

text \<open>
  \<open>FormData\<close> is an ordered list of entries, each a string or a \<open>File\<close> (here: its
  name). An entry for a string value is created from the scalar value strings of the name
  and of the value. \<open>formData.get(name)\<close> takes the scalar value string of \<open>name\<close>
  and is the first value stored under it, or \<open>null\<close>.
\<close>

datatype entry = EString jsstring | EFile jsstring

type_synonym FormData = "(jsstring \<times> entry) list"

definition create_entry :: "jsstring \<Rightarrow> jsstring \<Rightarrow> jsstring \<times> entry" where
  "create_entry name v = (to_scalar_value_string name, EString (to_scalar_value_string v))"

definition formData_get :: "FormData \<Rightarrow> jsstring \<Rightarrow> entry jsval" where
  "formData_get formData name =
     (case map_of formData (to_scalar_value_string name) of
        None \<Rightarrow> Null
      | Some e \<Rightarrow> Defined e)"

text \<open>
  \<open>v.length\<close>: a \<open>TypeError\<close> on \<open>null\<close> and \<open>undefined\<close>, the number of code
  units of a string, and \<open>undefined\<close> (here \<open>None\<close>) on a \<open>File\<close>, which has no such
  property.
\<close>

fun length_prop :: "entry jsval \<Rightarrow> js_error + nat option" where
  "length_prop Undefined = Inl TypeError"
| "length_prop Null = Inl TypeError"
| "length_prop (Defined (EString s)) = Inr (Some (length s))"
| "length_prop (Defined (EFile f)) = Inr None"

text \<open>\<open>x < k\<close> for a number \<open>k\<close>: \<open>undefined\<close> becomes \<open>NaN\<close>, and the comparison is false.\<close>

fun less_than :: "nat option \<Rightarrow> nat \<Rightarrow> bool" where
  "less_than None k = False"
| "less_than (Some n) k = (n < k)"

text \<open>The string a template literal \<open>`${v}`\<close> inserts for \<open>v\<close>.\<close>

fun to_string :: "entry jsval \<Rightarrow> jsstring" where
  "to_string Undefined = str ''undefined''"
| "to_string Null = str ''null''"
| "to_string (Defined (EString s)) = s"
| "to_string (Defined (EFile f)) = str ''[object File]''"

text \<open>
  An \<open>async\<close> function is a task: it is settled (fulfilled with a value, \<open>Inr\<close>, or
  rejected with an error, \<open>Inl\<close>), or it first awaits a promise that resolves when a
  timer of the given number of milliseconds, created by the function itself with
  \<open>setTimeout\<close>, fires. \<open>settle\<close> is the outcome of the task, \<open>timers\<close> the timers it
  creates and awaits, in order.
\<close>

datatype 'a async = Settled "js_error + 'a" | AwaitTimeout nat "'a async"

fun settle :: "'a async \<Rightarrow> js_error + 'a" where
  "settle (Settled r) = r"
| "settle (AwaitTimeout ms k) = settle k"


text \<open>
  \<open>new Promise(resolve => setTimeout(resolve, ms))\<close>: a promise fulfilled, with
  \<open>undefined\<close>, when a timer of \<open>ms\<close> milliseconds created for it fires. \<open>await p\<close>
  followed by the rest \<open>k\<close> of an async function: the function waits as \<open>p\<close> does, a
  rejection of \<open>p\<close> is thrown and rejects the function, and a fulfilment is handed to the
  rest.
\<close>

definition timeout_promise :: "nat \<Rightarrow> unit async" where
  "timeout_promise ms = AwaitTimeout ms (Settled (Inr ()))"

fun await :: "'a async \<Rightarrow> ('a \<Rightarrow> 'b async) \<Rightarrow> 'b async" where
  "await (Settled (Inl e)) k = Settled (Inl e)"
| "await (Settled (Inr v)) k = k v"
| "await (AwaitTimeout ms p) k = AwaitTimeout ms (await p k)"

text \<open>
  \<open>count + 1\<close> on a JavaScript number holding an integer. Numbers are IEEE-754 doubles:
  every integer of magnitude at most \<open>2 ^ 53\<close> is a double and the sum is exact while
  it stays in that range. Beyond it the doubles are the multiples of 2 (up to
  \<open>2 ^ 54\<close>) and of larger powers of 2, and the sum is rounded to the nearest double,
  a tie going to the one with the even significand.
\<close>

definition number_add_one :: "int \<Rightarrow> int" where
  "number_add_one n =
     (if - (2 ^ 53) \<le> n \<and> n < 2 ^ 53 then n + 1
      else if \<bar>n\<bar> < 2 ^ 54 \<and> n mod 4 = 2 then n + 2
      else n)"

text \<open>
  The state hook. A setter takes a new value or an updater function; called on a cell it
  stores the value, or the updater's result on the value the cell holds.
  \<open>useState\<close> on a mounted cell returns the stored value and the setter.
\<close>

datatype 'a set_arg = Value 'a | Updater "'a \<Rightarrow> 'a"

type_synonym 'a setter = "'a set_arg \<Rightarrow> 'a \<Rightarrow> 'a"

fun dispatchSetState :: "'a setter" where
  "dispatchSetState (Value v) s = v"
| "dispatchSetState (Updater f) s = f s"

definition useState :: "'a \<Rightarrow> 'a \<times> 'a setter" where
  "useState cell = (cell, dispatchSetState)"

text \<open>
  A context has a default value. \<open>useContext\<close> returns the \<open>value\<close> of the nearest
  enclosing provider of that context (the list holds the values of the enclosing
  providers, innermost first), and the default when there is none.
\<close>

record 'a Context =
  defaultValue :: 'a

definition createContext :: "'a \<Rightarrow> 'a Context" where
  "createContext d = \<lparr>defaultValue = d\<rparr>"

definition useContext :: "'a Context \<Rightarrow> 'a list \<Rightarrow> 'a" where
  "useContext ctx providers =
     (case providers of [] \<Rightarrow> defaultValue ctx | v # outer \<Rightarrow> v)"

text \<open>
  \<open>useActionState(fn, initial)\<close> on a cell holding the state and the pending flag:
  it returns the state, a form action that calls \<open>fn\<close> with the state and the submitted
  form data, and the pending flag.
\<close>

definition useActionState ::
    "('s \<Rightarrow> FormData \<Rightarrow> 'r async) \<Rightarrow> 's \<times> bool \<Rightarrow> 's \<times> (FormData \<Rightarrow> 'r async) \<times> bool" where
  "useActionState fn cell = (fst cell, (\<lambda>formData. fn (fst cell) formData), snd cell)"

section \<open>The form action and the App component\<close>

record action_result =
  success :: bool
  message :: jsstring

text \<open>
  The source:
  \<^verbatim>\<open>
  async function action (preState, formData){
      await new Promise(resolve => setTimeout(resolve, 1000));
      const username = formData.get("username");
      const id = formData.get("id") ;
      if (username.length < 3) {
          return { success: false, message: "Username must be at least 3 characters long" };
      }
      return { success: true, message: `User ${id} updated to ${username}` };
  }
  \<close>
  \<open>action_body\<close> is the body after the \<open>await\<close>; an exception in it rejects the task.
  \<open>action\<close> awaits the timer promise and then runs the body.
\<close>

definition action_body :: "FormData \<Rightarrow> js_error + action_result" where
  "action_body formData =
     (let username = formData_get formData (str ''username'');
          id = formData_get formData (str ''id'')
      in case length_prop username of
           Inl e \<Rightarrow> Inl e
         | Inr len \<Rightarrow>
             if less_than len 3
             then Inr \<lparr>success = False,
                       message = str ''Username must be at least 3 characters long''\<rparr>
             else Inr \<lparr>success = True,
                       message = str ''User '' @ to_string id @ str '' updated to ''
                                 @ to_string username\<rparr>)"

definition action :: "'s \<Rightarrow> FormData \<Rightarrow> action_result async" where
  "action preState formData =
     await (timeout_promise 1000) (\<lambda>resolved. Settled (action_body formData))"

text \<open>
  The state cells of \<open>App\<close>: the count (\<open>useState(0)\<close>), and the action state with its
  pending flag (\<open>useActionState(action, undefined)\<close>).
\<close>

record app_state =
  count :: int
  state :: "action_result jsval"
  isPending :: bool

definition App_initial :: app_state where
  "App_initial = \<lparr>count = 0, state = Undefined, isPending = False\<rparr>"

text \<open>
  What \<open>App\<close> renders, as far as it depends on the state: the counter button (its
  children and its click handler, as the change it makes to the count cell through the
  setter it is given), the form's action, the value of the hidden \<open>id\<close> input, the
  label of the submit button, and the message paragraph (class name and text) when
  \<open>state?.message\<close> is truthy.
\<close>

datatype child = Text jsstring | Number int

record app_view =
  button_onClick :: "int \<Rightarrow> int"
  button_children :: "child list"
  form_action :: "FormData \<Rightarrow> action_result async"
  hidden_id :: jsstring
  submit_children :: jsstring
  message_p :: "(jsstring \<times> jsstring) option"

definition App_onClick :: "int setter \<Rightarrow> int \<Rightarrow> int" where
  "App_onClick setCount = setCount (Updater (\<lambda>count. number_add_one count))"

definition App_message :: "action_result jsval \<Rightarrow> (jsstring \<times> jsstring) option" where
  "App_message st =
     (case st of
        Defined r \<Rightarrow>
          if message r = [] then None
          else Some (if success r then str ''text-green-500'' else str ''text-red-500'',
                     message r)
      | _ \<Rightarrow> None)"

definition App :: "app_state \<Rightarrow> app_view" where
  "App s =
     (let (count, setCount) = useState (count s);
          (state, formAction, isPending) = useActionState action (state s, isPending s)
      in \<lparr>button_onClick = App_onClick setCount,
          button_children = [Text (str ''count is ''), Number count],
          form_action = formAction,
          hidden_id = str ''1'',
          submit_children = (if isPending then str ''Submitting...'' else str ''Submit''),
          message_p = App_message state\<rparr>)"

text \<open>
  A click on the counter button,
  \<^verbatim>\<open><button onClick={() => setCount((count) => count + 1)}>count is {count}</button>\<close>:
  the handler's change, applied to the count cell.
\<close>

definition App_click :: "app_state \<Rightarrow> app_state" where
  "App_click s = s\<lparr>count := button_onClick (App s) (count s)\<rparr>"

text \<open>
  The form data the browser builds from the form \<open>App\<close> renders: an entry for the
  hidden \<open>id\<close> input and one for the text input \<open>username\<close>, whose value \<open>typed\<close> is
  what the user typed. The submit button has no name and gives no entry.
\<close>

definition form_submission :: "app_state \<Rightarrow> jsstring \<Rightarrow> FormData" where
  "form_submission s typed =
     [create_entry (str ''id'') (hidden_id (App s)), create_entry (str ''username'') typed]"

text \<open>
  A submission of the form. The framework sets the pending flag and calls the form action
  of the current render; while the task awaits, the state is \<open>App_pending s\<close>. When the
  task is fulfilled the framework stores the result as the new state and clears the
  pending flag; a rejection is thrown to the caller. \<open>App_submit\<close> is the submission
  run to the end.
\<close>

definition App_pending :: "app_state \<Rightarrow> app_state" where
  "App_pending s = s\<lparr>isPending := True\<rparr>"

definition App_submit :: "FormData \<Rightarrow> app_state \<Rightarrow> js_error + app_state" where
  "App_submit formData s =
     (case settle (form_action (App s) formData) of
        Inl e \<Rightarrow> Inl e
      | Inr r \<Rightarrow> Inr ((App_pending s)\<lparr>state := Defined r, isPending := False\<rparr>))"

section \<open>The theme context\<close>

text \<open>
  The source:
  \<^verbatim>\<open>
  export const  ThemeContext = createContext(null);
  export function useThemeContext() {
      const context = useContext(ThemeContext);
      if (context === undefined) {
          throw new Error('useThemeContext must be used with a ThemeContext');
      }
      return context;
  }
  \<close>
  The argument of the model is the list of the values of the enclosing providers.
\<close>

definition ThemeContext :: "'a jsval Context" where
  "ThemeContext = createContext Null"

definition useThemeContext :: "'a jsval list \<Rightarrow> js_error + 'a jsval" where
  "useThemeContext providers =
     (let context = useContext ThemeContext providers
      in if context = Undefined
         then Inl (Error (str ''useThemeContext must be used with a ThemeContext''))
         else Inr context)"

text \<open>\<open>Form\<close> renders a hidden input whose name is the context value.\<close>

definition Form :: "'a jsval list \<Rightarrow> 'a jsval" where
  "Form providers = useContext ThemeContext providers"

section \<open>The data provider and its consumer\<close>

text \<open>
  The source:
  \<^verbatim>\<open>
  const dataContext = React.createContext()
  export const DataProvider = ({ children }) => {
      const [data, setData] = React.useState('This is the data!')
      return (<dataContext.Provider value={[data, setData]}>{children}</dataContext.Provider>)
  }
  \<close>
  and the consumer:
  \<^verbatim>\<open>
  const [data, setData] = React.useContext(dataContext)
  ... <strong>Data:</strong> {data} ...
  <button onClick={() => setData('Data has changed!')}>
  \<close>
\<close>

type_synonym data_value = "(jsstring \<times> jsstring setter) jsval"

definition dataContext :: "data_value Context" where
  "dataContext = createContext Undefined"

definition DataProvider_initial :: jsstring where
  "DataProvider_initial = str ''This is the data!''"

text \<open>
  \<open>DataProvider\<close> on its state cell: the \<open>value\<close> it gives to \<open>dataContext.Provider\<close>.
\<close>

definition DataProvider :: "jsstring \<Rightarrow> data_value" where
  "DataProvider cell = (let (data, setData) = useState cell in Defined (data, setData))"

text \<open>
  The consumer destructures the context value (a \<open>TypeError\<close> on \<open>undefined\<close> and
  \<open>null\<close>), shows \<open>data\<close>, and its button's click handler calls \<open>setData\<close>.
\<close>

record consumer_view =
  shown :: jsstring
  onClick :: "jsstring \<Rightarrow> jsstring"

definition DataConsumer_context :: "data_value list \<Rightarrow> js_error + jsstring \<times> jsstring setter" where
  "DataConsumer_context providers =
     (case useContext dataContext providers of
        Defined pair \<Rightarrow> Inr pair
      | _ \<Rightarrow> Inl TypeError)"

definition DataConsumer :: "data_value list \<Rightarrow> js_error + consumer_view" where
  "DataConsumer providers =
     (case DataConsumer_context providers of
        Inl e \<Rightarrow> Inl e
      | Inr (data, setData) \<Rightarrow>
          Inr \<lparr>shown = data, onClick = setData (Value (str ''Data has changed!''))\<rparr>)"

text \<open>
  The demo: the consumer rendered inside \<open>DataProvider\<close>. A click on the consumer's
  button applies the handler's change to the provider's cell.
\<close>

definition demo_click :: "jsstring \<Rightarrow> js_error + jsstring" where
  "demo_click cell =
     (case DataConsumer [DataProvider cell] of
        Inl e \<Rightarrow> Inl e
      | Inr view \<Rightarrow> Inr (onClick view cell))"

fun demo_clicks :: "nat \<Rightarrow> jsstring \<Rightarrow> js_error + jsstring" where
  "demo_clicks 0 cell = Inr cell"
| "demo_clicks (Suc k) cell =
     (case demo_click cell of Inl e \<Rightarrow> Inl e | Inr cell' \<Rightarrow> demo_clicks k cell')"

text \<open>
  After \<open>k\<close> clicks the provider renders again on its cell, and the consumer inside it
  reads the context and renders: \<open>demo_context_after\<close> is the pair it reads,
  \<open>demo_view_after\<close> what it renders.
\<close>

definition demo_context_after ::
    "nat \<Rightarrow> jsstring \<Rightarrow> js_error + jsstring \<times> jsstring setter" where
  "demo_context_after k cell =
     (case demo_clicks k cell of
        Inl e \<Rightarrow> Inl e
      | Inr cell' \<Rightarrow> DataConsumer_context [DataProvider cell'])"

definition demo_view_after :: "nat \<Rightarrow> jsstring \<Rightarrow> js_error + consumer_view" where
  "demo_view_after k cell =
     (case demo_clicks k cell of
        Inl e \<Rightarrow> Inl e
      | Inr cell' \<Rightarrow> DataConsumer [DataProvider cell'])"

section \<open>The events of App\<close>

datatype app_event = ClickButton | SubmitForm FormData

fun App_event :: "app_event \<Rightarrow> app_state \<Rightarrow> js_error + app_state" where
  "App_event ClickButton s = Inr (App_click s)"
| "App_event (SubmitForm formData) s = App_submit formData s"

section \<open>The word "characters" of the specification\<close>

text \<open>
  This definition follows the specification's word, not the source. Where the
  specification counts the "characters" of a username, a character is a Unicode code
  point: a lead surrogate followed by a trail surrogate is one character, every other code
  unit is one character.
\<close>

fun characters :: "jsstring \<Rightarrow> nat" where
  "characters [] = 0"
| "characters [w] = 1"
| "characters (w # v # ws) =
     (if is_lead_surrogate w \<and> is_trail_surrogate v then Suc (characters ws)
      else Suc (characters (v # ws)))"

section \<open>Basic facts about the primitives and the components\<close>

lemma length_str: "length (str s) = length s"
  by (simp add: str_def)

lemma length_to_scalar_value_string: "length (to_scalar_value_string s) = length s"
  by (induction s rule: to_scalar_value_string.induct) simp_all

lemma scalar_names:
  "to_scalar_value_string (str ''username'') = str ''username''"
  "to_scalar_value_string (str ''id'') = str ''id''"
  "to_scalar_value_string (str ''1'') = str ''1''"
  by (simp_all add: is_lead_surrogate_def is_trail_surrogate_def str_def)

lemma useContext_simps:
  "useContext ctx [] = defaultValue ctx"
  "useContext ctx (v # outer) = v"
  by (simp_all add: useContext_def)

lemma ThemeContext_default: "defaultValue ThemeContext = Null"
  by (simp add: ThemeContext_def createContext_def)

lemma dataContext_default: "defaultValue dataContext = Undefined"
  by (simp add: dataContext_def createContext_def)

lemma useThemeContext_eq:
  "useThemeContext providers =
     (if useContext ThemeContext providers = Undefined
      then Inl (Error (str ''useThemeContext must be used with a ThemeContext''))
      else Inr (useContext ThemeContext providers))"
  by (simp add: useThemeContext_def Let_def)

lemma action_body_string:
  assumes "formData_get formData (str ''username'') = Defined (EString u)"
  shows "action_body formData =
     Inr (if length u < 3
          then \<lparr>success = False, message = str ''Username must be at least 3 characters long''\<rparr>
          else \<lparr>success = True,
                message = str ''User '' @ to_string (formData_get formData (str ''id''))
                          @ str '' updated to '' @ u\<rparr>)"
  using assms by (simp add: action_body_def Let_def)




lemma settle_action: "settle (action preState formData) = action_body formData"
  by (simp add: action_def timeout_promise_def)


lemma App_view:
  "button_onClick (App s) = dispatchSetState (Updater number_add_one)"
  "button_children (App s) = [Text (str ''count is ''), Number (count s)]"
  "form_action (App s) = action (state s)"
  "hidden_id (App s) = str ''1''"
  "submit_children (App s) = (if isPending s then str ''Submitting...'' else str ''Submit'')"
  "message_p (App s) = App_message (state s)"
  by (simp_all add: App_def useState_def useActionState_def App_onClick_def)

lemma App_click_eq: "App_click s = s\<lparr>count := number_add_one (count s)\<rparr>"
  by (simp add: App_click_def App_view)

lemma App_submit_eq:
  "App_submit formData s =
     (case action_body formData of
        Inl e \<Rightarrow> Inl e
      | Inr r \<Rightarrow> Inr (s\<lparr>state := Defined r, isPending := False\<rparr>))"
  by (simp add: App_submit_def App_pending_def App_view settle_action split: sum.splits)

lemma number_add_one_safe: "- (2 ^ 53) \<le> n \<Longrightarrow> n < 2 ^ 53 \<Longrightarrow> number_add_one n = n + 1"
  by (simp add: number_add_one_def)

lemma number_add_one_limit: "number_add_one (2 ^ 53) = 2 ^ 53"
  by (simp add: number_add_one_def)

lemma form_submission_get:
  "formData_get (form_submission s typed) (str ''username'')
     = Defined (EString (to_scalar_value_string typed))"
  "formData_get (form_submission s typed) (str ''id'') = Defined (EString (str ''1''))"
proof -
  have "str ''username'' \<noteq> str ''id''"
    by (simp add: str_def)
  then show "formData_get (form_submission s typed) (str ''username'')
     = Defined (EString (to_scalar_value_string typed))"
    by (simp add: formData_get_def form_submission_def create_entry_def scalar_names)
  show "formData_get (form_submission s typed) (str ''id'') = Defined (EString (str ''1''))"
    by (simp add: formData_get_def form_submission_def create_entry_def scalar_names App_view)
qed

lemma App_form_answer:
  "action_body (form_submission s typed) =
     Inr (if length typed < 3
          then \<lparr>success = False,
                message = str ''Username must be at least 3 characters long''\<rparr>
          else \<lparr>success = True,
                message = str ''User 1 updated to '' @ to_scalar_value_string typed\<rparr>)"
  by (simp add: action_body_string [OF form_submission_get(1)] form_submission_get
      length_to_scalar_value_string)
    (simp add: str_def)

lemma DataConsumer_context_in_provider:
  "DataConsumer_context [DataProvider cell] = Inr (cell, dispatchSetState)"
  by (simp add: DataConsumer_context_def useContext_def DataProvider_def useState_def)

lemma DataConsumer_in_provider:
  "DataConsumer (Defined (data, setData) # outer) =
     Inr \<lparr>shown = data, onClick = setData (Value (str ''Data has changed!''))\<rparr>"
  by (simp add: DataConsumer_def DataConsumer_context_def useContext_simps)

lemma DataConsumer_outside: "DataConsumer [] = Inl TypeError"
  by (simp add: DataConsumer_def DataConsumer_context_def useContext_simps dataContext_default)

lemma DataProvider_eq: "DataProvider cell = Defined (cell, dispatchSetState)"
  by (simp add: DataProvider_def useState_def)

lemma demo_click_eq: "demo_click cell = Inr (str ''Data has changed!'')"
  by (simp add: demo_click_def DataProvider_eq DataConsumer_in_provider)

lemma demo_clicks_changed:
  "demo_clicks k (str ''Data has changed!'') = Inr (str ''Data has changed!'')"
  by (induction k) (simp_all add: demo_click_eq)

lemma App_clicks_state:
  "int k \<le> 2 ^ 53 \<Longrightarrow> (App_click ^^ k) App_initial = App_initial\<lparr>count := int k\<rparr>"
proof (induction k)
  case 0
  then show ?case by (simp add: App_initial_def)
next
  case (Suc k)
  then have IH: "(App_click ^^ k) App_initial = App_initial\<lparr>count := int k\<rparr>" by simp
  from Suc.prems have less: "int k < 2 ^ 53" by simp
  have "(App_click ^^ Suc k) App_initial = App_click ((App_click ^^ k) App_initial)"
    by simp
  also have "\<dots> = App_click (App_initial\<lparr>count := int k\<rparr>)"
    by (simp only: IH)
  also have "\<dots> = App_initial\<lparr>count := int (Suc k)\<rparr>"
    using less by (simp add: App_click_eq number_add_one_safe)
  finally show ?case .
qed

section \<open>The claims\<close>

text \<open>
  C1. The claim is that \<open>useThemeContext\<close> throws when it is called outside a provider of
  \<open>ThemeContext\<close>. On the code it does not: with no enclosing provider \<open>useContext\<close>
  yields the default \<open>null\<close> the context was created with, the check compares with
  \<open>undefined\<close>, and the hook returns \<open>null\<close>.
\<close>
theorem useThemeContext_outside_provider:
  "useContext ThemeContext ([] :: 'a jsval list) = Null
   \<and> useThemeContext ([] :: 'a jsval list) = Inr Null"
  by (simp add: useThemeContext_eq useContext_simps ThemeContext_default)



text \<open>
  C3. The counter renders the current count, and its click handler is one call of the
  setter it is given, \<open>setCount(count => count + 1)\<close>; a click changes the count so and
  nothing else. The consumer renders the data it read from the context, and its click
  handler is one call of the setter it read, \<open>setData('Data has changed!')\<close>.
  \<open>DataProvider\<close> passes on the pair \<open>useState\<close> returned and \<open>Form\<close> the value of the
  context. But the form of \<open>App\<close> has a validation step of the repository's own: a
  submission is answered by \<open>action\<close> with the failure result when what was typed has
  length below 3 and with the success message otherwise, and that answer becomes the
  action state.
\<close>
theorem components_call_setters_and_form_validates:
  "App_onClick setCount = setCount (Updater number_add_one)
   \<and> button_onClick (App s) = dispatchSetState (Updater number_add_one)
   \<and> button_children (App s) = [Text (str ''count is ''), Number (count s)]
   \<and> App_event ClickButton s = Inr (s\<lparr>count := number_add_one (count s)\<rparr>)
   \<and> DataConsumer (Defined (data, setData) # outer)
       = Inr \<lparr>shown = data, onClick = setData (Value (str ''Data has changed!''))\<rparr>
   \<and> DataProvider d = Defined (useState d)
   \<and> Form providers = useContext ThemeContext providers
   \<and> App_event (SubmitForm (form_submission s typed)) s
       = Inr (s\<lparr>state := Defined
                   (if length typed < 3
                    then \<lparr>success = False,
                          message = str ''Username must be at least 3 characters long''\<rparr>
                    else \<lparr>success = True,
                          message = str ''User 1 updated to ''
                                    @ to_scalar_value_string typed\<rparr>),
                 isPending := False\<rparr>)"
proof -
  have "App_onClick setCount = setCount (Updater number_add_one)"
    by (simp add: App_onClick_def)
  moreover have "App_event (SubmitForm (form_submission s typed)) s
       = Inr (s\<lparr>state := Defined
                   (if length typed < 3
                    then \<lparr>success = False,
                          message = str ''Username must be at least 3 characters long''\<rparr>
                    else \<lparr>success = True,
                          message = str ''User 1 updated to ''
                                    @ to_scalar_value_string typed\<rparr>),
                 isPending := False\<rparr>)"
    by (simp add: App_submit_eq App_form_answer)
  ultimately show ?thesis
    by (simp add: App_view App_click_eq DataConsumer_in_provider DataProvider_eq useState_def
        Form_def)
qed

text \<open>
  The claim C3 as it was stated, that no component has a validation step of its own, fails
  on \<open>App\<close>: from the same state its form rejects the username \<open>ab\<close> and accepts
  \<open>abc\<close>.
\<close>
theorem App_form_validates_counterexample:
  "App_event (SubmitForm (form_submission App_initial (str ''ab''))) App_initial
     = Inr \<lparr>count = 0,
            state = Defined \<lparr>success = False,
                             message = str ''Username must be at least 3 characters long''\<rparr>,
            isPending = False\<rparr>
   \<and> App_event (SubmitForm (form_submission App_initial (str ''abc''))) App_initial
     = Inr \<lparr>count = 0,
            state = Defined \<lparr>success = True, message = str ''User 1 updated to abc''\<rparr>,
            isPending = False\<rparr>"
proof -
  have ab: "App_event (SubmitForm (form_submission App_initial (str ''ab''))) App_initial
     = Inr \<lparr>count = 0,
            state = Defined \<lparr>success = False,
                             message = str ''Username must be at least 3 characters long''\<rparr>,
            isPending = False\<rparr>"
    by (simp add: App_submit_eq App_form_answer length_str App_initial_def)
  have "to_scalar_value_string (str ''abc'') = str ''abc''"
    by (simp add: is_lead_surrogate_def is_trail_surrogate_def str_def)
  then have abc: "App_event (SubmitForm (form_submission App_initial (str ''abc''))) App_initial
     = Inr \<lparr>count = 0,
            state = Defined \<lparr>success = True, message = str ''User 1 updated to abc''\<rparr>,
            isPending = False\<rparr>"
    by (simp add: App_submit_eq App_form_answer length_str App_initial_def) (simp add: str_def)
  from ab abc show ?thesis by simp
qed

text \<open>
  C4. The value \<open>DataProvider\<close> gives to the context is the pair \<open>useState\<close> returned,
  and a consumer whose nearest provider is \<open>DataProvider\<close> reads that same pair back from
  \<open>useContext\<close> and shows its data; on the first render that is
  \<open>'This is the data!'\<close>.
\<close>
theorem DataProvider_value_passes_through:
  "DataProvider d = Defined (useState d)
   \<and> useContext dataContext (DataProvider d # outer) = DataProvider d
   \<and> DataConsumer_context (DataProvider d # outer) = Inr (useState d)
   \<and> map_sum id shown (DataConsumer (DataProvider d # outer)) = Inr d
   \<and> map_sum id shown (DataConsumer [DataProvider DataProvider_initial])
       = Inr (str ''This is the data!'')"
  by (simp add: DataProvider_eq useContext_simps DataConsumer_context_def
      DataConsumer_in_provider useState_def DataProvider_initial_def)

text \<open>
  C5. For every count \<open>n\<close> with \<open>- 2 ^ 53 \<le> n < 2 ^ 53\<close>, a click on the counter button
  sets the count to \<open>n + 1\<close>, the button then shows \<open>n + 1\<close>, and nothing else of the
  state changes.
\<close>
theorem counter_click_increments:
  assumes "- (2 ^ 53) \<le> count s" and "count s < 2 ^ 53"
  shows "count (App_click s) = count s + 1
         \<and> button_children (App (App_click s)) = [Text (str ''count is ''), Number (count s + 1)]
         \<and> state (App_click s) = state s \<and> isPending (App_click s) = isPending s"
  using assms by (simp add: App_click_eq App_view number_add_one_safe)

theorem counter_click_increments_witness:
  "- (2 ^ 53) \<le> count App_initial \<and> count App_initial < 2 ^ 53
   \<and> count (App_click App_initial) = 1
   \<and> button_children (App (App_click App_initial)) = [Text (str ''count is ''), Number 1]"
proof -
  have lo: "- (2 ^ 53) \<le> count App_initial" by (simp add: App_initial_def)
  have hi: "count App_initial < 2 ^ 53" by (simp add: App_initial_def)
  show ?thesis
    using lo hi counter_click_increments [OF lo hi] by (simp add: App_initial_def)
qed

text \<open>
  The claim C5 as it was stated, for every count, fails at \<open>2 ^ 53 = 9007199254740992\<close>,
  the count after that many clicks from the initial state: there \<open>count + 1\<close> is rounded
  back to \<open>2 ^ 53\<close> and the click leaves the count as it was.
\<close>
theorem counter_click_at_limit_counterexample:
  "(App_click ^^ 9007199254740992) App_initial
     = \<lparr>count = 9007199254740992, state = Undefined, isPending = False\<rparr>
   \<and> count (App_click \<lparr>count = 9007199254740992, state = Undefined, isPending = False\<rparr>)
     = 9007199254740992
   \<and> count (App_click \<lparr>count = 9007199254740992, state = Undefined, isPending = False\<rparr>)
     \<noteq> 9007199254740992 + 1"
proof -
  have "int 9007199254740992 \<le> 2 ^ 53" by simp
  from App_clicks_state [OF this]
  have "(App_click ^^ 9007199254740992) App_initial
     = \<lparr>count = 9007199254740992, state = Undefined, isPending = False\<rparr>"
    by (simp add: App_initial_def)
  moreover have "count (App_click \<lparr>count = 9007199254740992, state = Undefined, isPending = False\<rparr>)
     = 9007199254740992"
    by (simp add: App_click_eq number_add_one_def)
  ultimately show ?thesis by simp
qed



text \<open>
  C8. When the submitted form data holds a string under \<open>username\<close>, the task returned
  by \<open>action\<close> is fulfilled with \<open>{success: false, message: "Username must be at least 3
  characters long"}\<close> exactly when the length of that string, in UTF-16 code units, is
  below 3, and otherwise with \<open>{success: true, message: `User ${id} updated to
  ${username}`}\<close>, \<open>id\<close> and \<open>username\<close> being the submitted fields; the previous state
  never influences the task. Every submission of the form of \<open>App\<close>, whatever was typed
  and whatever the state, is answered so, \<open>id\<close> being \<open>1\<close> and \<open>username\<close> the scalar
  value string of what was typed.
\<close>
theorem action_validates_username_length:
  assumes "formData_get formData (str ''username'') = Defined (EString username)"
  shows "settle (action preState formData) =
           Inr (if length username < 3
                then \<lparr>success = False,
                      message = str ''Username must be at least 3 characters long''\<rparr>
                else \<lparr>success = True,
                      message = str ''User '' @ to_string (formData_get formData (str ''id''))
                                @ str '' updated to '' @ username\<rparr>)
         \<and> action preState' formData = action preState formData
         \<and> settle (form_action (App s) (form_submission s typed)) =
             Inr (if length typed < 3
                  then \<lparr>success = False,
                        message = str ''Username must be at least 3 characters long''\<rparr>
                  else \<lparr>success = True,
                        message = str ''User 1 updated to ''
                                  @ to_scalar_value_string typed\<rparr>)"
proof -
  have general: "settle (action preState formData) =
           Inr (if length username < 3
                then \<lparr>success = False,
                      message = str ''Username must be at least 3 characters long''\<rparr>
                else \<lparr>success = True,
                      message = str ''User '' @ to_string (formData_get formData (str ''id''))
                                @ str '' updated to '' @ username\<rparr>)"
    using assms by (simp add: settle_action action_body_string)
  have unused: "action preState' formData = action preState formData"
    by (simp add: action_def)
  have form: "settle (form_action (App s) (form_submission s typed)) =
             Inr (if length typed < 3
                  then \<lparr>success = False,
                        message = str ''Username must be at least 3 characters long''\<rparr>
                  else \<lparr>success = True,
                        message = str ''User 1 updated to ''
                                  @ to_scalar_value_string typed\<rparr>)"
    by (simp add: App_view settle_action App_form_answer)
  from general unused form show ?thesis by (intro conjI)
qed

theorem action_validates_username_length_witness:
  "settle (action (Undefined :: action_result jsval) (form_submission App_initial (str ''ab''))) =
     Inr \<lparr>success = False, message = str ''Username must be at least 3 characters long''\<rparr>
   \<and> settle (action (Undefined :: action_result jsval) (form_submission App_initial (str ''reza''))) =
     Inr \<lparr>success = True, message = str ''User 1 updated to reza''\<rparr>"
proof -
  have sab: "to_scalar_value_string (str ''ab'') = str ''ab''"
    by (simp add: is_lead_surrogate_def is_trail_surrogate_def str_def)
  have sreza: "to_scalar_value_string (str ''reza'') = str ''reza''"
    by (simp add: is_lead_surrogate_def is_trail_surrogate_def str_def)
  have ab: "formData_get (form_submission App_initial (str ''ab'')) (str ''username'')
      = Defined (EString (str ''ab''))"
    by (simp add: form_submission_get sab)
  have reza: "formData_get (form_submission App_initial (str ''reza'')) (str ''username'')
      = Defined (EString (str ''reza''))"
    by (simp add: form_submission_get sreza)
  have first: "settle (action (Undefined :: action_result jsval)
        (form_submission App_initial (str ''ab''))) =
     Inr \<lparr>success = False, message = str ''Username must be at least 3 characters long''\<rparr>"
    using action_validates_username_length [OF ab, where preState = "Undefined :: action_result jsval"
        and preState' = "Undefined :: action_result jsval" and s = App_initial and typed = "[]"]
    by (simp add: length_str)
  have second: "settle (action (Undefined :: action_result jsval)
        (form_submission App_initial (str ''reza''))) =
     Inr \<lparr>success = True, message = str ''User 1 updated to reza''\<rparr>"
    using action_validates_username_length [OF reza, where preState = "Undefined :: action_result jsval"
        and preState' = "Undefined :: action_result jsval" and s = App_initial and typed = "[]"]
    by (simp add: form_submission_get length_str) (simp add: str_def)
  from first second show ?thesis by simp
qed

text \<open>
  The claim C8 as it was stated, with the failure returned exactly when the username has
  fewer than 3 characters, fails at the username made of the character \<open>U+1F600\<close> (the code
  units \<open>D83D DE00\<close>) and the letter \<open>a\<close>: it has 2 characters and length 3, and the
  form of \<open>App\<close> answers it with the success message.
\<close>
theorem action_accepts_two_characters_counterexample:
  "characters [55357, 56832, 97] = 2
   \<and> length [55357, 56832, 97 :: 16 word] = 3
   \<and> settle (action (Undefined :: action_result jsval)
         (form_submission App_initial [55357, 56832, 97]))
     = Inr \<lparr>success = True, message = str ''User 1 updated to '' @ [55357, 56832, 97]\<rparr>"
proof -
  have "to_scalar_value_string [55357, 56832, 97] = [55357, 56832, 97]"
    by (simp add: is_lead_surrogate_def is_trail_surrogate_def)
  then have "action_body (form_submission App_initial [55357, 56832, 97])
     = Inr \<lparr>success = True, message = str ''User 1 updated to '' @ [55357, 56832, 97]\<rparr>"
    by (simp add: App_form_answer)
  then show ?thesis
    by (simp add: settle_action is_lead_surrogate_def is_trail_surrogate_def)
qed

text \<open>
  C9. \<open>useThemeContext\<close> throws exactly when the context value is \<open>undefined\<close>; outside
  any provider the value is the default \<open>null\<close> and the hook returns \<open>null\<close>; and
  every value other than \<open>undefined\<close>, \<open>null\<close> included, is returned as it is.
\<close>
theorem useThemeContext_throws_only_on_undefined:
  "((\<exists>e. useThemeContext (providers :: 'a jsval list) = Inl e)
      \<longleftrightarrow> useContext ThemeContext providers = Undefined)
   \<and> useThemeContext ([] :: 'a jsval list) = Inr Null
   \<and> (v \<noteq> Undefined \<longrightarrow> useThemeContext (v # outer) = Inr (v :: 'a jsval))"
  by (simp add: useThemeContext_eq useContext_simps ThemeContext_default)

theorem useThemeContext_throws_only_on_undefined_witness:
  "(Null :: jsstring jsval) \<noteq> Undefined
   \<and> useThemeContext [Null :: jsstring jsval] = Inr Null
   \<and> useThemeContext [Defined (str ''dark''), Undefined] = Inr (Defined (str ''dark''))
   \<and> (\<exists>e. useThemeContext [Undefined :: jsstring jsval] = Inl e)"
  using useThemeContext_throws_only_on_undefined
      [where providers = "[Undefined :: jsstring jsval]" and v = Null and outer = "[]"]
    useThemeContext_throws_only_on_undefined
      [where providers = "[Undefined :: jsstring jsval]" and v = "Defined (str ''dark'')"
         and outer = "[Undefined]"]
  by (simp add: useContext_simps)

text \<open>
  C10. Inside \<open>DataProvider\<close>, before any click the consumer reads the provider's data
  from the context, whatever it is. One click on the consumer's button sets the
  provider's cell to \<open>'Data has changed!'\<close>, a click at that value leaves it there, and
  after one click and after any number of further clicks the data the consumer reads from
  the context, and shows, is \<open>'Data has changed!'\<close>, the pair it reads being the same
  after every click.
\<close>
theorem consumer_click_idempotent:
  "demo_click d = Inr (str ''Data has changed!'')
   \<and> demo_click (str ''Data has changed!'') = Inr (str ''Data has changed!'')
   \<and> demo_clicks (Suc k) d = Inr (str ''Data has changed!'')
   \<and> map_sum id fst (demo_context_after 0 d) = Inr d
   \<and> map_sum id fst (demo_context_after (Suc k) d) = Inr (str ''Data has changed!'')
   \<and> demo_context_after (Suc (Suc k)) d = demo_context_after (Suc 0) d
   \<and> map_sum id shown (demo_view_after 0 d) = Inr d
   \<and> map_sum id shown (demo_view_after (Suc k) d) = Inr (str ''Data has changed!'')"
proof -
  have clicks: "demo_clicks (Suc j) d = Inr (str ''Data has changed!'')" for j
    by (simp add: demo_click_eq demo_clicks_changed)
  have ctx: "demo_context_after (Suc j) d = Inr (str ''Data has changed!'', dispatchSetState)" for j
    unfolding demo_context_after_def
    by (simp only: clicks) (simp add: DataConsumer_context_in_provider)
  have view: "map_sum id shown (demo_view_after (Suc j) d) = Inr (str ''Data has changed!'')" for j
    unfolding demo_view_after_def
    by (simp only: clicks) (simp add: DataProvider_eq DataConsumer_in_provider)
  have ctx0: "map_sum id fst (demo_context_after 0 d) = Inr d"
    by (simp add: demo_context_after_def DataConsumer_context_in_provider)
  have view0: "map_sum id shown (demo_view_after 0 d) = Inr d"
    by (simp add: demo_view_after_def DataProvider_eq DataConsumer_in_provider)
  have "demo_context_after (Suc (Suc k)) d = demo_context_after (Suc 0) d"
    by (simp only: ctx)
  with clicks [of k] ctx [of k] view [of k] ctx0 view0 show ?thesis
    by (simp add: demo_click_eq)
qed

end
